theory Spec2Isabelle
  imports Complex_Main
begin

section \<open>Python values\<close>

text \<open>
  The valuation code works on Python numbers taken from JSON documents of the data
  provider. A Python \<open>float\<close> is modelled as a real number: the model has no
  rounding error, no NaN and no infinity, and every statement below about a numeric
  result is a statement about this idealised arithmetic. Python integers are unbounded
  and modelled as \<open>int\<close>. Exceptions are values of the type \<open>error\<close>.
\<close>

datatype error = ValueError | TypeError | ZeroDivisionError | OverflowError | IndexError

text \<open>A JSON scalar as Python sees it: \<open>None\<close>, an \<open>int\<close>, a \<open>float\<close> or a \<open>str\<close>.\<close>

datatype pyval = PNone | PInt int | PFloat real | PStr string

text \<open>
  \<open>float(v)\<close>: a number converts, \<open>None\<close> raises \<open>TypeError\<close>, a string is parsed
  and raises \<open>ValueError\<close> when it is not a numeral. The parser of numerals is a
  parameter (\<open>str2float\<close>).
\<close>

definition py_float :: "(string \<Rightarrow> real option) \<Rightarrow> pyval \<Rightarrow> error + real" where
  "py_float str2float v =
     (case v of
        PNone \<Rightarrow> Inl TypeError
      | PInt i \<Rightarrow> Inr (of_int i)
      | PFloat x \<Rightarrow> Inr x
      | PStr s \<Rightarrow> (case str2float s of None \<Rightarrow> Inl ValueError | Some x \<Rightarrow> Inr x))"

text \<open>Truthiness of a value, as tested by \<open>if v:\<close> and by \<open>or\<close>.\<close>

definition truthy :: "pyval \<Rightarrow> bool" where
  "truthy v = (case v of PNone \<Rightarrow> False | PInt i \<Rightarrow> i \<noteq> 0 | PFloat x \<Rightarrow> x \<noteq> 0 | PStr s \<Rightarrow> s \<noteq> [])"

text \<open>\<open>a or b\<close>: the first operand when it is truthy, the second otherwise.\<close>

definition py_or :: "pyval \<Rightarrow> pyval \<Rightarrow> pyval" where
  "py_or a b = (if truthy a then a else b)"

text \<open>
  \<open>round(x, 2)\<close>: the multiple of \<open>0.01\<close> nearest to \<open>x\<close>, an exact tie going to the
  even neighbour.
\<close>

definition round_half_even :: "real \<Rightarrow> int" where
  "round_half_even x =
     (let f = \<lfloor>x\<rfloor>; d = x - of_int f
      in if d < 1 / 2 then f else if 1 / 2 < d then f + 1 else if even f then f else f + 1)"

definition py_round2 :: "real \<Rightarrow> real" where
  "py_round2 x = of_int (round_half_even (x * 100)) / 100"

section \<open>Growth estimation (growth\_estimation.py)\<close>

text \<open>
  \<open>calculate_cagr(start, end, years)\<close>. The three conversions sit in one \<open>try\<close>
  block whose handler returns 0. After the guard all three numbers are positive, so
  neither division can fail and the base of the power is positive.
\<close>

definition calculate_cagr :: "(string \<Rightarrow> real option) \<Rightarrow> pyval \<Rightarrow> pyval \<Rightarrow> pyval \<Rightarrow> real" where
  "calculate_cagr str2float start endv years =
     (case py_float str2float start of
        Inl _ \<Rightarrow> 0
      | Inr s \<Rightarrow>
     (case py_float str2float endv of
        Inl _ \<Rightarrow> 0
      | Inr e \<Rightarrow>
     (case py_float str2float years of
        Inl _ \<Rightarrow> 0
      | Inr y \<Rightarrow>
          if s \<le> 0 \<or> e \<le> 0 \<or> y \<le> 0 then 0
          else (e / s) powr (1 / y) - 1)))"

text \<open>
  List access with a non-negative index raises \<open>IndexError\<close> past the end; a slice
  \<open>xs[a:b]\<close> with non-negative bounds is clamped to the list and never raises.
\<close>

definition py_index :: "'a list \<Rightarrow> nat \<Rightarrow> error + 'a" where
  "py_index xs i = (if i < length xs then Inr (xs ! i) else Inl IndexError)"

definition py_slice :: "'a list \<Rightarrow> int \<Rightarrow> int \<Rightarrow> 'a list" where
  "py_slice xs a b = drop (nat a) (take (nat b) xs)"

text \<open>
  One round of the loop \<open>for key, values in data_dict.items()\<close> of
  \<open>mos_growth_estimate\<close>. The state is the pair of \<open>details\<close> (a dict from metric
  name to percentage) and \<open>growths\<close> (the list of decimal rates that enter the
  average). A series that is too short is stored as 0 and the round ends with
  \<open>continue\<close>, before anything is appended to \<open>growths\<close>.
\<close>

definition metric_step ::
  "(string \<Rightarrow> real option) \<Rightarrow> int \<Rightarrow> string \<times> real list \<Rightarrow>
   (string \<rightharpoonup> real) \<times> real list \<Rightarrow> error + ((string \<rightharpoonup> real) \<times> real list)" where
  "metric_step str2float start_index kv st =
     (case kv of (key, values) \<Rightarrow>
      case st of (details, growths) \<Rightarrow>
        if int (length values) < start_index + 6 then Inr (details(key \<mapsto> 0), growths)
        else
          let sub_values = py_slice values start_index (start_index + 6) in
          (case py_index sub_values 0 of
             Inl e \<Rightarrow> Inl e
           | Inr start \<Rightarrow>
          (case py_index sub_values 5 of
             Inl e \<Rightarrow> Inl e
           | Inr endv \<Rightarrow>
               if 0 < start \<and> 0 < endv then
                 let cagr = calculate_cagr str2float (PFloat start) (PFloat endv) (PInt 5)
                 in Inr (details(key \<mapsto> py_round2 (cagr * 100)), growths @ [cagr])
               else Inr (details(key \<mapsto> 0), growths @ [0]))))"

fun metric_loop ::
  "(string \<Rightarrow> real option) \<Rightarrow> int \<Rightarrow> (string \<times> real list) list \<Rightarrow>
   (string \<rightharpoonup> real) \<times> real list \<Rightarrow> error + ((string \<rightharpoonup> real) \<times> real list)" where
  "metric_loop str2float start_index [] st = Inr st"
| "metric_loop str2float start_index (kv # rest) st =
     (case metric_step str2float start_index kv st of
        Inl e \<Rightarrow> Inl e
      | Inr st' \<Rightarrow> metric_loop str2float start_index rest st')"

text \<open>
  \<open>mos_growth_estimate(data_dict, target_year, data_start_year)\<close>. The dict of series
  is the list of its items in iteration order. The result is the raised exception or
  the returned dict \<open>details\<close>.
\<close>

definition mos_growth_estimate ::
  "(string \<Rightarrow> real option) \<Rightarrow> (string \<times> real list) list \<Rightarrow> int \<Rightarrow> int \<Rightarrow>
   error + (string \<rightharpoonup> real)" where
  "mos_growth_estimate str2float data_dict target_year data_start_year =
     (let start_index = target_year - data_start_year - 5 in
      if start_index < 0 then Inl ValueError
      else
        (case metric_loop str2float start_index data_dict (Map.empty, []) of
           Inl e \<Rightarrow> Inl e
         | Inr (details, growths) \<Rightarrow>
             let avg_growth =
                   (if growths \<noteq> [] then sum_list growths / real (length growths) else 0)
             in Inr (details(''avg'' \<mapsto> py_round2 (avg_growth * 100)))))"

text \<open>The entry of a returned dict under a key; nothing when the call raised.\<close>

definition returned_entry :: "error + (string \<rightharpoonup> real) \<Rightarrow> string \<Rightarrow> real option" where
  "returned_entry r key = (case r of Inl _ \<Rightarrow> None | Inr details \<Rightarrow> details key)"

text \<open>
  The decimal growth rate of one series over the window that starts at
  \<open>start_index\<close>, for a series that reaches the end of the window: the compound
  rate over five years when both endpoints are positive, and 0 otherwise.
\<close>

definition window_cagr :: "int \<Rightarrow> real list \<Rightarrow> real" where
  "window_cagr start_index values =
     (let s = values ! nat start_index; e = values ! nat (start_index + 5)
      in if 0 < s \<and> 0 < e then (e / s) powr (1 / 5) - 1 else 0)"

definition enough_history :: "int \<Rightarrow> string \<times> real list \<Rightarrow> bool" where
  "enough_history start_index kv = (start_index + 6 \<le> int (length (snd kv)))"

text \<open>
  The average as the specification words it: every one of the four metrics counts,
  a series that is too short with rate 0.
\<close>

definition spec_metric_rate :: "int \<Rightarrow> real list \<Rightarrow> real" where
  "spec_metric_rate start_index values =
     (if int (length values) < start_index + 6 then 0 else window_cagr start_index values)"

definition spec_avg :: "int \<Rightarrow> real list \<Rightarrow> real list \<Rightarrow> real list \<Rightarrow> real list \<Rightarrow> real" where
  "spec_avg start_index eps book revenue cashflow =
     py_round2 (100 * (spec_metric_rate start_index eps + spec_metric_rate start_index book
                       + spec_metric_rate start_index revenue
                       + spec_metric_rate start_index cashflow) / 4)"

section \<open>Intrinsic value (mos.py)\<close>




section \<open>Provider records\<close>

text \<open>
  A statement record of the provider is a JSON object, in Python a dict from field name
  to scalar. It is modelled by the list of its items; a dict has no two items with the
  same key. \<open>d.get(k, default)\<close> never raises.
\<close>

type_synonym pydict = "(string \<times> pyval) list"

definition dict_get :: "pydict \<Rightarrow> string \<Rightarrow> pyval \<Rightarrow> pyval" where
  "dict_get d k dflt = (case map_of d k of None \<Rightarrow> dflt | Some v \<Rightarrow> v)"

text \<open>\<open>str(v)\<close>. Integers print in decimal; the printing of a float is a parameter.\<close>

fun show_nat :: "nat \<Rightarrow> string" where
  "show_nat n =
     (if n < 10 then [''0123456789'' ! n]
      else show_nat (n div 10) @ [''0123456789'' ! (n mod 10)])"

declare show_nat.simps [simp del]

definition show_int :: "int \<Rightarrow> string" where
  "show_int i = (if i < 0 then CHR ''-'' # show_nat (nat (- i)) else show_nat (nat i))"

definition py_str :: "(real \<Rightarrow> string) \<Rightarrow> pyval \<Rightarrow> string" where
  "py_str float_repr v =
     (case v of
        PNone \<Rightarrow> ''None''
      | PInt i \<Rightarrow> show_int i
      | PFloat x \<Rightarrow> float_repr x
      | PStr s \<Rightarrow> s)"

text \<open>\<open>v / MILLION\<close> and \<open>abs(v)\<close> raise \<open>TypeError\<close> on \<open>None\<close> and on a string.\<close>

definition py_div_million :: "pyval \<Rightarrow> error + real" where
  "py_div_million v =
     (case v of
        PInt i \<Rightarrow> Inr (of_int i / 1000000)
      | PFloat x \<Rightarrow> Inr (x / 1000000)
      | _ \<Rightarrow> Inl TypeError)"

definition py_abs :: "pyval \<Rightarrow> error + pyval" where
  "py_abs v =
     (case v of
        PInt i \<Rightarrow> Inr (PInt \<bar>i\<bar>)
      | PFloat x \<Rightarrow> Inr (PFloat \<bar>x\<bar>)
      | _ \<Rightarrow> Inl TypeError)"

text \<open>\<open>key.lower()\<close> on ASCII field names, and the substring test \<open>pat in s\<close>.\<close>

definition lower_char :: "char \<Rightarrow> char" where
  "lower_char c =
     (let n = (of_char c :: nat) in if 65 \<le> n \<and> n \<le> 90 then char_of (n + 32) else c)"

definition lower :: "string \<Rightarrow> string" where
  "lower s = map lower_char s"

fun contains :: "string \<Rightarrow> string \<Rightarrow> bool" where
  "contains pat [] = (pat = [])"
| "contains pat (c # cs) = (take (length pat) (c # cs) = pat \<or> contains pat cs)"

section \<open>Ten-cap price (ten\_cap.py)\<close>

definition calculate_owner_earnings :: "real \<Rightarrow> real \<Rightarrow> real \<Rightarrow> real \<Rightarrow> real" where
  "calculate_owner_earnings profit_before_tax depreciation working_capital_change maintenance_capex =
     (let adjusted_maintenance = maintenance_capex * (5 / 10)
      in profit_before_tax + depreciation + working_capital_change - adjusted_maintenance)"

text \<open>
  \<open>calculate_working_capital_change(cashflow_data)\<close> returns the total and the dict
  of its two components.
\<close>

definition calculate_working_capital_change :: "pydict \<Rightarrow> error + (real \<times> (string \<times> real) list)" where
  "calculate_working_capital_change cashflow_data =
     (case py_div_million (dict_get cashflow_data ''accountsReceivables'' (PInt 0)) of
        Inl e \<Rightarrow> Inl e
      | Inr accounts_receivable_change \<Rightarrow>
     (case py_div_million (dict_get cashflow_data ''accountsPayables'' (PInt 0)) of
        Inl e \<Rightarrow> Inl e
      | Inr accounts_payable_change \<Rightarrow>
          Inr (accounts_receivable_change + accounts_payable_change,
               [(''accounts_receivable'', accounts_receivable_change),
                (''accounts_payable'', accounts_payable_change)])))"

text \<open>
  The record of the requested year: the first record whose \<open>calendarYear\<close>, printed
  by \<open>str\<close>, is the printed year.
\<close>

definition find_year :: "(real \<Rightarrow> string) \<Rightarrow> pydict list \<Rightarrow> string \<Rightarrow> pydict option" where
  "find_year float_repr data year_str =
     List.find (\<lambda>d. py_str float_repr (dict_get d ''calendarYear'' PNone) = year_str) data"

text \<open>
  The two chains of \<open>or\<close> over alternative field names: the first truthy value in
  the order of the chain, and the last value when none is truthy.
\<close>

definition depreciation_field :: "pydict \<Rightarrow> pyval" where
  "depreciation_field current_cashflow =
     py_or (py_or (py_or (dict_get current_cashflow ''depreciationAndAmortization'' (PInt 0))
                         (dict_get current_cashflow ''depreciation'' (PInt 0)))
                  (dict_get current_cashflow ''depreciationAmortizationDepletion'' (PInt 0)))
           (dict_get current_cashflow ''depreciationDepletionAndAmortization'' (PInt 0))"

definition shares_outstanding_field :: "pydict \<Rightarrow> pydict \<Rightarrow> pyval" where
  "shares_outstanding_field current_metrics current_year_data =
     py_or (py_or (py_or (dict_get current_metrics ''weightedAverageShsOut'' (PInt 0))
                         (dict_get current_metrics ''weightedAverageShsOutDil'' (PInt 0)))
                  (dict_get current_year_data ''weightedAverageShsOut'' (PInt 0)))
           (dict_get current_year_data ''weightedAverageShsOutDil'' (PInt 0))"

text \<open>
  The debug output written when the depreciation is 0: every item of the cash-flow
  record whose lower-cased key contains \<open>depreciation\<close> is divided by a million
  inside the logged text, which raises on a value that is not a number.
\<close>

fun depreciation_debug :: "pydict \<Rightarrow> error + unit" where
  "depreciation_debug [] = Inr ()"
| "depreciation_debug ((key, v) # rest) =
     (if contains ''depreciation'' (lower key) then
        (case py_div_million v of Inl e \<Rightarrow> Inl e | Inr _ \<Rightarrow> depreciation_debug rest)
      else depreciation_debug rest)"

text \<open>
  The computation on the three records of the year, up to the returned value. An
  exception is the left summand; the value \<open>None\<close> returned for a non-positive
  share count is \<open>Inr None\<close>.
\<close>

definition ten_cap_of_records :: "pydict \<Rightarrow> pydict \<Rightarrow> pydict \<Rightarrow> error + real option" where
  "ten_cap_of_records current_year_data current_cashflow current_metrics =
     (case py_div_million (dict_get current_year_data ''incomeBeforeTax'' (PInt 0)) of
        Inl e \<Rightarrow> Inl e
      | Inr profit_before_tax \<Rightarrow>
     (case py_div_million (depreciation_field current_cashflow) of
        Inl e \<Rightarrow> Inl e
      | Inr depreciation \<Rightarrow>
     (case (if depreciation = 0 then depreciation_debug current_cashflow else Inr ()) of
        Inl e \<Rightarrow> Inl e
      | Inr _ \<Rightarrow>
     (case calculate_working_capital_change current_cashflow of
        Inl e \<Rightarrow> Inl e
      | Inr (working_capital_change, wc_components) \<Rightarrow>
     (case py_abs (dict_get current_cashflow ''capitalExpenditure'' (PInt 0)) of
        Inl e \<Rightarrow> Inl e
      | Inr capex \<Rightarrow>
     (case py_div_million capex of
        Inl e \<Rightarrow> Inl e
      | Inr maintenance_capex \<Rightarrow>
     (case py_div_million (shares_outstanding_field current_metrics current_year_data) of
        Inl e \<Rightarrow> Inl e
      | Inr shares_outstanding \<Rightarrow>
          if shares_outstanding \<le> 0 then Inr None
          else
            let owner_earnings =
                  calculate_owner_earnings profit_before_tax depreciation
                    working_capital_change maintenance_capex;
                eps = (if 0 < shares_outstanding then owner_earnings / shares_outstanding else 0);
                ten_cap_price = eps / (10 / 100)
            in Inr (Some ten_cap_price))))))))"

text \<open>\<open>not r\<close> for the outcome of a search: no record, or an empty one.\<close>

definition not_record :: "pydict option \<Rightarrow> bool" where
  "not_record r = (case r of None \<Rightarrow> True | Some d \<Rightarrow> d = [])"

text \<open>
  \<open>calculate_ten_cap_price(ticker, year)\<close>. The three requests to the provider are
  parameters: each takes the ticker and the limit and gives the list of records, or
  nothing when the request raises or the payload is not a list of records (both end in
  the handler). Everything runs inside \<open>try\<close>, and the handler returns \<open>None\<close>.
\<close>

definition calculate_ten_cap_price ::
  "(real \<Rightarrow> string) \<Rightarrow> (string \<Rightarrow> nat \<Rightarrow> pydict list option) \<Rightarrow>
   (string \<Rightarrow> nat \<Rightarrow> pydict list option) \<Rightarrow> (string \<Rightarrow> nat \<Rightarrow> pydict list option) \<Rightarrow>
   string \<Rightarrow> pyval \<Rightarrow> real option" where
  "calculate_ten_cap_price float_repr get_income_statement get_cashflow_statement get_key_metrics
     ticker year =
     (case get_income_statement ticker 10 of
        None \<Rightarrow> None
      | Some income_data \<Rightarrow>
     (case get_cashflow_statement ticker 10 of
        None \<Rightarrow> None
      | Some cashflow_data \<Rightarrow>
     (case get_key_metrics ticker 10 of
        None \<Rightarrow> None
      | Some metrics \<Rightarrow>
          if income_data = [] \<or> cashflow_data = [] \<or> metrics = [] then None
          else
            let year_str = py_str float_repr year;
                current_year_data = find_year float_repr income_data year_str;
                current_cashflow = find_year float_repr cashflow_data year_str;
                current_metrics = find_year float_repr metrics year_str
            in if not_record current_year_data \<or> not_record current_cashflow
                  \<or> not_record current_metrics
               then None
               else
                 (case ten_cap_of_records (the current_year_data) (the current_cashflow)
                         (the current_metrics) of
                    Inl e \<Rightarrow> None
                  | Inr r \<Rightarrow> r))))"

section \<open>Price lookup (fmp\_api.py)\<close>

text \<open>
  The answer of the provider to a request for the prices of one day: the request or
  the decoding raised, or the JSON object has no key \<open>historical\<close>, or it has one with
  a list of records.
\<close>

datatype history_response = RequestFailed | NoHistorical | Historical "pydict list"

text \<open>
  \<open>get_price_on_date(ticker, date)\<close>. The provider is a parameter. Every exception,
  also the \<open>KeyError\<close> of a first record without \<open>close\<close>, ends in the handler,
  which returns \<open>None\<close>.
\<close>

definition get_price_on_date ::
  "(string \<Rightarrow> string \<Rightarrow> history_response) \<Rightarrow> string \<Rightarrow> string \<Rightarrow> pyval" where
  "get_price_on_date provider ticker date =
     (case provider ticker date of
        RequestFailed \<Rightarrow> PNone
      | NoHistorical \<Rightarrow> PNone
      | Historical [] \<Rightarrow> PNone
      | Historical (r # _) \<Rightarrow> (case map_of r ''close'' of None \<Rightarrow> PNone | Some price \<Rightarrow> price))"

text \<open>
  The loop \<open>for i in range(14)\<close> of \<open>get_valid_price\<close>, from index \<open>i\<close> with \<open>n\<close>
  rounds left. A date is the number of its day, day 1 being 0001-01-01, the earliest
  \<open>datetime\<close>; subtracting a \<open>timedelta\<close> that leads before it raises
  \<open>OverflowError\<close>. \<open>strftime\<close> is a parameter. The function returns the dates
  requested from the provider, in order, together with the outcome: the exception, or
  the pair of price and date, or nothing for the pair \<open>(None, None)\<close>.
\<close>

fun price_search ::
  "(int \<Rightarrow> string) \<Rightarrow> (string \<Rightarrow> string \<Rightarrow> history_response) \<Rightarrow> string \<Rightarrow> int \<Rightarrow>
   nat \<Rightarrow> nat \<Rightarrow> string list \<Rightarrow> string list \<times> (error + (pyval \<times> string) option)" where
  "price_search strftime provider ticker base_date i 0 requested = (requested, Inr None)"
| "price_search strftime provider ticker base_date i (Suc n) requested =
     (if base_date - int i < 1 then (requested, Inl OverflowError)
      else
        let date_str = strftime (base_date - int i);
            price = get_price_on_date provider ticker date_str
        in if truthy price then (requested @ [date_str], Inr (Some (price, date_str)))
           else price_search strftime provider ticker base_date (Suc i) n (requested @ [date_str]))"

text \<open>
  \<open>get_valid_price(ticker, base_date_str)\<close>. \<open>strptime\<close> is a parameter; it gives
  nothing for a string that is not a date, where Python raises \<open>ValueError\<close>.
\<close>

definition get_valid_price ::
  "(string \<Rightarrow> int option) \<Rightarrow> (int \<Rightarrow> string) \<Rightarrow> (string \<Rightarrow> string \<Rightarrow> history_response) \<Rightarrow>
   string \<Rightarrow> string \<Rightarrow> string list \<times> (error + (pyval \<times> string) option)" where
  "get_valid_price strptime strftime provider ticker base_date_str =
     (case strptime base_date_str of
        None \<Rightarrow> ([], Inl ValueError)
      | Some base_date \<Rightarrow> price_search strftime provider ticker base_date 0 14 [])"

text \<open>The provider that has no data for every day whose closing price is falsy.\<close>

definition without_falsy ::
  "(string \<Rightarrow> string \<Rightarrow> history_response) \<Rightarrow> string \<Rightarrow> string \<Rightarrow> history_response" where
  "without_falsy provider ticker date =
     (if truthy (get_price_on_date provider ticker date) then provider ticker date
      else NoHistorical)"

section \<open>Predicates used in the statements\<close>

text \<open>An argument of \<open>calculate_cagr\<close> whose conversion by \<open>float\<close> raises.\<close>

definition non_numeric :: "(string \<Rightarrow> real option) \<Rightarrow> pyval \<Rightarrow> bool" where
  "non_numeric str2float v = (case py_float str2float v of Inl _ \<Rightarrow> True | Inr _ \<Rightarrow> False)"

text \<open>An argument that converts to a number which is zero or negative.\<close>

definition non_positive :: "(string \<Rightarrow> real option) \<Rightarrow> pyval \<Rightarrow> bool" where
  "non_positive str2float v = (case py_float str2float v of Inl _ \<Rightarrow> False | Inr x \<Rightarrow> x \<le> 0)"

text \<open>
  The decimal rates that enter the average: one for each series that reaches the end of
  the window, in the order of the dict.
\<close>

definition counted_rates :: "int \<Rightarrow> (string \<times> real list) list \<Rightarrow> real list" where
  "counted_rates start_index data_dict =
     map (\<lambda>kv. window_cagr start_index (snd kv)) (filter (enough_history start_index) data_dict)"


section \<open>An example calendar and provider\<close>

text \<open>
  The instances below run the price lookup on the last days of December 2020.
  2020-12-31 is day 737790; \<open>december_2020\<close> prints the days from the 10th to the
  31st of that month as \<open>strftime\<close> does.
\<close>

definition december_2020 :: "int \<Rightarrow> string" where
  "december_2020 d = ''2020-12-'' @ show_nat (nat (d - 737759))"

definition parse_december_2020 :: "string \<Rightarrow> int option" where
  "parse_december_2020 s = (if s = ''2020-12-31'' then Some 737790 else None)"

text \<open>
  A provider given by the closing prices of some days: one record for a day that is
  listed, an empty list of records for any other day.
\<close>

definition provider_of_closes ::
  "(string \<times> pyval) list \<Rightarrow> string \<Rightarrow> string \<Rightarrow> history_response" where
  "provider_of_closes closes ticker date =
     (case map_of closes date of
        None \<Rightarrow> Historical []
      | Some price \<Rightarrow> Historical [[(''date'', PStr date), (''close'', price)]])"

section \<open>Notions used in the statements on the ten-cap price\<close>

text \<open>The number held by a value, if it is a number.\<close>

definition number_of :: "pyval \<Rightarrow> real option" where
  "number_of v = (case v of PInt i \<Rightarrow> Some (of_int i) | PFloat x \<Rightarrow> Some x | _ \<Rightarrow> None)"

text \<open>
  The record of the requested year in the collection that a request returns; nothing
  when the request fails or no record matches.
\<close>

definition year_record ::
  "(real \<Rightarrow> string) \<Rightarrow> (string \<Rightarrow> nat \<Rightarrow> pydict list option) \<Rightarrow> string \<Rightarrow> pyval \<Rightarrow> pydict option" where
  "year_record float_repr request ticker year =
     (case request ticker 10 of
        None \<Rightarrow> None
      | Some data \<Rightarrow> find_year float_repr data (py_str float_repr year))"

text \<open>The share count resolved from the two records is a number above zero.\<close>

definition positive_shares :: "pydict \<Rightarrow> pydict \<Rightarrow> bool" where
  "positive_shares current_metrics current_year_data =
     (case number_of (shares_outstanding_field current_metrics current_year_data) of
        None \<Rightarrow> False
      | Some x \<Rightarrow> 0 < x)"

text \<open>
  A request that serves a fixed collection, cut to the limit, and the printing of a float
  with an integer value; both serve the instances below, where no year is a float.
\<close>

definition serves :: "pydict list \<Rightarrow> string \<Rightarrow> nat \<Rightarrow> pydict list option" where
  "serves data ticker limit = Some (take limit data)"

definition integral_float_repr :: "real \<Rightarrow> string" where
  "integral_float_repr x = show_int \<lfloor>x\<rfloor> @ ''.0''"

text \<open>
  Records of the year 2020 for the instances: an income statement with a given profit
  before tax and share count, a cash-flow statement of a given year with a given
  depreciation, and key metrics without a share count.
\<close>

definition income_2020 :: "pyval \<Rightarrow> pyval \<Rightarrow> pydict" where
  "income_2020 income_before_tax shares =
     [(''date'', PStr ''2020-12-31''), (''symbol'', PStr ''COF''),
      (''calendarYear'', PStr ''2020''), (''incomeBeforeTax'', income_before_tax),
      (''weightedAverageShsOut'', shares), (''weightedAverageShsOutDil'', shares)]"

definition cashflow_of_year :: "string \<Rightarrow> pyval \<Rightarrow> pydict" where
  "cashflow_of_year calendar_year depreciation =
     [(''symbol'', PStr ''COF''), (''calendarYear'', PStr calendar_year),
      (''depreciationAndAmortization'', depreciation),
      (''accountsReceivables'', PInt (- 3000000)), (''accountsPayables'', PInt (- 2000000)),
      (''capitalExpenditure'', PInt (- 10000000))]"

definition metrics_2020 :: pydict where
  "metrics_2020 =
     [(''symbol'', PStr ''COF''), (''calendarYear'', PStr ''2020''),
      (''revenuePerShare'', PFloat 12)]"

section \<open>Rounding and the loop over the metrics\<close>

lemma round_half_even_of_int [simp]: "round_half_even (of_int n) = n"
  by (simp add: round_half_even_def)

lemma py_round2_0 [simp]: "py_round2 0 = 0"
  using round_half_even_of_int [of 0] by (simp add: py_round2_def del: round_half_even_of_int)


lemma calculate_cagr_floats:
  "0 < s \<Longrightarrow> 0 < e \<Longrightarrow> calculate_cagr p (PFloat s) (PFloat e) (PInt 5) = (e / s) powr (1 / 5) - 1"
  by (simp add: calculate_cagr_def py_float_def)

lemma window_index:
  assumes "0 \<le> si" and "si + 6 \<le> int (length v)"
  shows "py_index (py_slice v si (si + 6)) 0 = Inr (v ! nat si)"
    and "py_index (py_slice v si (si + 6)) 5 = Inr (v ! nat (si + 5))"
proof -
  have len: "nat si + 6 \<le> length v" using assms by linarith
  have n6: "nat (si + 6) = nat si + 6" and n5: "nat (si + 5) = nat si + 5"
    using assms by linarith+
  have l: "length (py_slice v si (si + 6)) = 6"
    using len by (simp add: py_slice_def n6)
  show "py_index (py_slice v si (si + 6)) 0 = Inr (v ! nat si)"
    using l len by (simp add: py_index_def) (simp add: py_slice_def n6)
  show "py_index (py_slice v si (si + 6)) 5 = Inr (v ! nat (si + 5))"
    using l len by (simp add: py_index_def) (simp add: py_slice_def n6 n5)
qed

lemma metric_step_eq:
  assumes "0 \<le> si"
  shows "metric_step p si (k, v) (d, g) =
           Inr (if enough_history si (k, v)
                then (d(k \<mapsto> py_round2 (window_cagr si v * 100)), g @ [window_cagr si v])
                else (d(k \<mapsto> 0), g))"
proof (cases "enough_history si (k, v)")
  case False
  then show ?thesis by (simp add: metric_step_def enough_history_def)
next
  case True
  then have len: "si + 6 \<le> int (length v)" by (simp add: enough_history_def)
  note ix = window_index [OF assms len]
  show ?thesis
    using True len
    by (simp add: metric_step_def ix Let_def window_cagr_def calculate_cagr_floats)
qed

lemma metric_loop_eq:
  assumes "0 \<le> si"
  shows "\<exists>d'. metric_loop p si items (d, g) = Inr (d', g @ counted_rates si items)
              \<and> (\<forall>k. k \<notin> fst ` set items \<longrightarrow> d' k = d k)
              \<and> (distinct (map fst items) \<longrightarrow>
                   (\<forall>k v. (k, v) \<in> set items \<longrightarrow>
                      d' k = Some (if enough_history si (k, v)
                                   then py_round2 (window_cagr si v * 100) else 0)))"
proof (induction items arbitrary: d g)
  case Nil
  show ?case by (simp add: counted_rates_def)
next
  case (Cons kv rest)
  obtain k v where kv: "kv = (k, v)" by (cases kv)
  let ?d1 = "if enough_history si (k, v) then d(k \<mapsto> py_round2 (window_cagr si v * 100)) else d(k \<mapsto> 0)"
  let ?g1 = "if enough_history si (k, v) then g @ [window_cagr si v] else g"
  have step: "metric_step p si kv (d, g) = Inr (?d1, ?g1)"
    by (simp add: kv metric_step_eq [OF assms])
  from Cons.IH [of ?d1 ?g1] obtain d' where
    run: "metric_loop p si rest (?d1, ?g1) = Inr (d', ?g1 @ counted_rates si rest)"
    and keep: "\<forall>k'. k' \<notin> fst ` set rest \<longrightarrow> d' k' = ?d1 k'"
    and ent: "distinct (map fst rest) \<longrightarrow>
                   (\<forall>k' v'. (k', v') \<in> set rest \<longrightarrow>
                      d' k' = Some (if enough_history si (k', v')
                                   then py_round2 (window_cagr si v' * 100) else 0))"
    by blast
  have g: "?g1 @ counted_rates si rest = g @ counted_rates si (kv # rest)"
    by (simp add: counted_rates_def kv)
  have "metric_loop p si (kv # rest) (d, g) = Inr (d', g @ counted_rates si (kv # rest))"
    using step run g by simp
  moreover have "\<forall>k'. k' \<notin> fst ` set (kv # rest) \<longrightarrow> d' k' = d k'"
    using keep by (auto simp: kv)
  moreover have "distinct (map fst (kv # rest)) \<longrightarrow>
                   (\<forall>k' v'. (k', v') \<in> set (kv # rest) \<longrightarrow>
                      d' k' = Some (if enough_history si (k', v')
                                   then py_round2 (window_cagr si v' * 100) else 0))"
  proof (intro impI allI)
    fix k' v'
    assume dist: "distinct (map fst (kv # rest))" and mem: "(k', v') \<in> set (kv # rest)"
    show "d' k' = Some (if enough_history si (k', v')
                                   then py_round2 (window_cagr si v' * 100) else 0)"
    proof (cases "(k', v') \<in> set rest")
      case True
      with ent dist show ?thesis by simp
    next
      case False
      with mem have e: "k' = k" "v' = v" by (auto simp: kv)
      have "k \<notin> fst ` set rest" using dist by (simp add: kv)
      with keep have "d' k = ?d1 k" by blast
      then show ?thesis by (simp add: e)
    qed
  qed
  ultimately show ?case by blast
qed

lemma mos_growth_estimate_ok:
  assumes "0 \<le> t - s - 5"
  shows "\<exists>d'. mos_growth_estimate p items t s =
            Inr (d'(''avg'' \<mapsto> py_round2 ((if counted_rates (t - s - 5) items \<noteq> []
                     then sum_list (counted_rates (t - s - 5) items)
                          / real (length (counted_rates (t - s - 5) items))
                     else 0) * 100)))
          \<and> (distinct (map fst items) \<longrightarrow>
                   (\<forall>k v. (k, v) \<in> set items \<longrightarrow>
                      d' k = Some (if enough_history (t - s - 5) (k, v)
                                   then py_round2 (window_cagr (t - s - 5) v * 100) else 0)))"
proof -
  from metric_loop_eq [OF assms, of p items Map.empty "[]"] obtain d' where
    run: "metric_loop p (t - s - 5) items (Map.empty, []) = Inr (d', counted_rates (t - s - 5) items)"
    and ent: "distinct (map fst items) \<longrightarrow>
                   (\<forall>k v. (k, v) \<in> set items \<longrightarrow>
                      d' k = Some (if enough_history (t - s - 5) (k, v)
                                   then py_round2 (window_cagr (t - s - 5) v * 100) else 0))"
    by auto
  have "mos_growth_estimate p items t s =
            Inr (d'(''avg'' \<mapsto> py_round2 ((if counted_rates (t - s - 5) items \<noteq> []
                     then sum_list (counted_rates (t - s - 5) items)
                          / real (length (counted_rates (t - s - 5) items))
                     else 0) * 100)))"
    using assms run by (simp add: mos_growth_estimate_def Let_def)
  with ent show ?thesis by blast
qed




section \<open>Properties of calculate\_cagr\<close>

text \<open>
  Claim C8. \<open>calculate_cagr\<close> returns 0 whenever one of \<open>start\<close>, \<open>end\<close>, \<open>years\<close>
  fails the conversion to a float, and whenever one of them converts to a number that is
  not positive.
\<close>

theorem calculate_cagr_invalid_zero:
  assumes "non_numeric p start \<or> non_numeric p endv \<or> non_numeric p years
           \<or> non_positive p start \<or> non_positive p endv \<or> non_positive p years"
  shows "calculate_cagr p start endv years = 0"
  using assms
  by (auto simp: calculate_cagr_def non_numeric_def non_positive_def split: sum.splits)

text \<open>
  The instances named by the claim, \<open>start = -5\<close> and \<open>years = 0\<close>, and two arguments
  that are not numbers.
\<close>

theorem calculate_cagr_invalid_zero_witness:
  "calculate_cagr Map.empty (PInt (- 5)) (PInt 10) (PInt 5) = 0
   \<and> calculate_cagr Map.empty (PInt 1) (PInt 2) (PInt 0) = 0
   \<and> calculate_cagr Map.empty (PStr ''n/a'') (PFloat 2) (PInt 5) = 0
   \<and> calculate_cagr Map.empty (PInt 1) PNone (PInt 5) = 0"
proof -
  have a: "non_positive Map.empty (PInt (- 5))" by (simp add: non_positive_def py_float_def)
  have b: "non_positive Map.empty (PInt 0)" by (simp add: non_positive_def py_float_def)
  have c: "non_numeric Map.empty (PStr ''n/a'')" by (simp add: non_numeric_def py_float_def)
  have d: "non_numeric Map.empty PNone" by (simp add: non_numeric_def py_float_def)
  show ?thesis
    using calculate_cagr_invalid_zero [of Map.empty "PInt (- 5)" "PInt 10" "PInt 5"]
      calculate_cagr_invalid_zero [of Map.empty "PInt 1" "PInt 2" "PInt 0"]
      calculate_cagr_invalid_zero [of Map.empty "PStr ''n/a''" "PFloat 2" "PInt 5"]
      calculate_cagr_invalid_zero [of Map.empty "PInt 1" PNone "PInt 5"]
      a b c d by blast
qed



lemma fifth_root_32: "(32::real) powr (1 / 5) = 2"
proof -
  have "(32::real) = 2 powr 5" by simp
  then have "(32::real) powr (1 / 5) = (2 powr 5) powr (1 / 5)" by simp
  also have "\<dots> = 2" by (simp only: powr_powr) simp
  finally show ?thesis .
qed

lemma window_cagr_32: "window_cagr 0 [1, 1, 1, 1, 1, 32] = 1"
  by (simp add: window_cagr_def fifth_root_32)


lemma counted_example:
  "counted_rates 0 [(''book'', [1, 1, 1, 1, 1, 32]), (''eps'', [1, 2, 3]),
         (''revenue'', [1, 1, 1, 1, 1, 32]), (''cashflow'', [1, 1, 1, 1, 1, 32])] = [1, 1, 1]"
  by (simp add: counted_rates_def enough_history_def window_cagr_32)

lemma py_round2_100: "py_round2 100 = 100"
  using round_half_even_of_int [of 10000] by (simp add: py_round2_def del: round_half_even_of_int)

lemma py_round2_75: "py_round2 75 = 75"
  using round_half_even_of_int [of 7500] by (simp add: py_round2_def del: round_half_even_of_int)


lemma avg_example_value:
  "returned_entry
     (mos_growth_estimate Map.empty
        [(''book'', [1, 1, 1, 1, 1, 32]), (''eps'', [1, 2, 3]),
         (''revenue'', [1, 1, 1, 1, 1, 32]), (''cashflow'', [1, 1, 1, 1, 1, 32])] 5 0) ''avg''
   = Some 100"
proof -
  have z: "(0::int) \<le> 5 - 0 - 5" and z': "(5 - 0 - 5 :: int) = 0" by simp_all
  from mos_growth_estimate_ok [OF z, of Map.empty
        "[(''book'', [1, 1, 1, 1, 1, 32]), (''eps'', [1, 2, 3]),
         (''revenue'', [1, 1, 1, 1, 1, 32]), (''cashflow'', [1, 1, 1, 1, 1, 32])]"]
  obtain d' where
    "mos_growth_estimate Map.empty
        [(''book'', [1, 1, 1, 1, 1, 32]), (''eps'', [1, 2, 3]),
         (''revenue'', [1, 1, 1, 1, 1, 32]), (''cashflow'', [1, 1, 1, 1, 1, 32])] 5 0
     = Inr (d'(''avg'' \<mapsto> py_round2 ((if [1, 1, 1 :: real] \<noteq> []
                     then sum_list [1, 1, 1 :: real] / real (length [1, 1, 1 :: real])
                     else 0) * 100)))"
    unfolding z' counted_example by blast
  then show ?thesis by (simp add: returned_entry_def py_round2_100)
qed


section \<open>Properties of mos\_growth\_estimate\<close>

text \<open>
  Claim C2. \<open>mos_growth_estimate\<close> raises exactly when
  \<open>start_index = target_year - data_start_year - 5\<close> is negative, that is when
  \<open>target_year - data_start_year < 5\<close>; what it raises then is \<open>ValueError\<close>,
  whatever the series are, and the exception is the outcome of the call.
\<close>

theorem insufficient_history_iff:
  "(isl (mos_growth_estimate p data_dict target_year data_start_year)
      \<longleftrightarrow> target_year - data_start_year - 5 < 0)
   \<and> (target_year - data_start_year - 5 < 0 \<longleftrightarrow> target_year - data_start_year < 5)
   \<and> (target_year - data_start_year < 5
        \<longrightarrow> mos_growth_estimate p data_dict target_year data_start_year = Inl ValueError)"
proof (cases "target_year - data_start_year - 5 < 0")
  case True
  then show ?thesis by (simp add: mos_growth_estimate_def)
next
  case False
  then have "0 \<le> target_year - data_start_year - 5" by simp
  from mos_growth_estimate_ok [OF this, of p data_dict] False show ?thesis by auto
qed

theorem insufficient_history_iff_witness:
  "mos_growth_estimate Map.empty [(''eps'', [1, 1, 1, 1, 1, 2])] 2019 2015 = Inl ValueError
   \<and> \<not> isl (mos_growth_estimate Map.empty [(''eps'', [1, 1, 1, 1, 1, 2])] 2020 2015)"
  using insufficient_history_iff [of Map.empty "[(''eps'', [1, 1, 1, 1, 1, 2])]" 2019 2015]
    insufficient_history_iff [of Map.empty "[(''eps'', [1, 1, 1, 1, 1, 2])]" 2020 2015]
  by simp



text \<open>
  Claim C1, as the code has it. With a valid \<open>start_index\<close>, the entry \<open>avg\<close> is
  \<open>round(100 * sum / n, 2)\<close>, where the sum runs over the decimal rates of the metrics
  whose series has at least \<open>start_index + 6\<close> entries and \<open>n\<close> is the number of
  those metrics; it is 0 when there is none. A metric with a non-positive endpoint has
  rate 0 and counts in \<open>n\<close>. A metric whose series is too short is stored as 0 and the
  loop goes on to the next metric: it does not count in \<open>n\<close>.
\<close>

theorem avg_over_counted_metrics:
  assumes "0 \<le> target_year - data_start_year - 5"
  shows "returned_entry (mos_growth_estimate p data_dict target_year data_start_year) ''avg'' =
           Some (if counted_rates (target_year - data_start_year - 5) data_dict = [] then 0
                 else py_round2 (100 * sum_list (counted_rates (target_year - data_start_year - 5) data_dict)
                        / real (length (counted_rates (target_year - data_start_year - 5) data_dict))))"
proof -
  let ?c = "counted_rates (target_year - data_start_year - 5) data_dict"
  from mos_growth_estimate_ok [OF assms, of p data_dict] obtain d' where
    r: "mos_growth_estimate p data_dict target_year data_start_year =
          Inr (d'(''avg'' \<mapsto> py_round2 ((if ?c \<noteq> [] then sum_list ?c / real (length ?c) else 0) * 100)))"
    by blast
  have e: "(sum_list ?c / real (length ?c)) * 100 = 100 * sum_list ?c / real (length ?c)"
    by simp
  show ?thesis
  proof (cases "?c = []")
    case True
    then show ?thesis unfolding r returned_entry_def by simp
  next
    case False
    then show ?thesis unfolding r returned_entry_def by (simp add: mult.commute)
  qed
qed

theorem avg_over_counted_metrics_witness:
  "returned_entry
     (mos_growth_estimate Map.empty
        [(''book'', [1, 1, 1, 1, 1, 32]), (''eps'', [1, 2, 3]),
         (''revenue'', [1, 1, 1, 1, 1, 32]), (''cashflow'', [1, 1, 1, 1, 1, 32])] 5 0) ''avg''
   = Some 100"
proof -
  have "returned_entry
     (mos_growth_estimate Map.empty
        [(''book'', [1, 1, 1, 1, 1, 32]), (''eps'', [1, 2, 3]),
         (''revenue'', [1, 1, 1, 1, 1, 32]), (''cashflow'', [1, 1, 1, 1, 1, 32])] 5 0) ''avg''
     = Some (if counted_rates (5 - 0 - 5) [(''book'', [1, 1, 1, 1, 1, 32]), (''eps'', [1, 2, 3]),
         (''revenue'', [1, 1, 1, 1, 1, 32]), (''cashflow'', [1, 1, 1, 1, 1, 32])] = [] then 0
                 else py_round2 (100 * sum_list (counted_rates (5 - 0 - 5) [(''book'', [1, 1, 1, 1, 1, 32]), (''eps'', [1, 2, 3]),
         (''revenue'', [1, 1, 1, 1, 1, 32]), (''cashflow'', [1, 1, 1, 1, 1, 32])])
                        / real (length (counted_rates (5 - 0 - 5) [(''book'', [1, 1, 1, 1, 1, 32]), (''eps'', [1, 2, 3]),
         (''revenue'', [1, 1, 1, 1, 1, 32]), (''cashflow'', [1, 1, 1, 1, 1, 32])]))))"
    by (rule avg_over_counted_metrics) simp
  also have "(5 - 0 - 5 :: int) = 0" by simp
  finally show ?thesis
    by (simp only: counted_example) (simp add: py_round2_100)
qed


text \<open>
  Claim C1 as stated fails: with three series that grow from 1 to 32 and an \<open>eps\<close>
  series of three entries, the code averages the three rates of 100 percent and returns
  100, where a denominator of four gives 75.
\<close>

theorem avg_counts_every_metric_counterexample:
  "returned_entry
     (mos_growth_estimate Map.empty
        [(''book'', [1, 1, 1, 1, 1, 32]), (''eps'', [1, 2, 3]),
         (''revenue'', [1, 1, 1, 1, 1, 32]), (''cashflow'', [1, 1, 1, 1, 1, 32])] 5 0) ''avg''
   = Some 100
   \<and> spec_avg 0 [1, 2, 3] [1, 1, 1, 1, 1, 32] [1, 1, 1, 1, 1, 32] [1, 1, 1, 1, 1, 32] = 75
   \<and> returned_entry
     (mos_growth_estimate Map.empty
        [(''book'', [1, 1, 1, 1, 1, 32]), (''eps'', [1, 2, 3]),
         (''revenue'', [1, 1, 1, 1, 1, 32]), (''cashflow'', [1, 1, 1, 1, 1, 32])] 5 0) ''avg''
     \<noteq> Some (spec_avg 0 [1, 2, 3] [1, 1, 1, 1, 1, 32] [1, 1, 1, 1, 1, 32] [1, 1, 1, 1, 1, 32])"
proof -
  have "spec_avg 0 [1, 2, 3] [1, 1, 1, 1, 1, 32] [1, 1, 1, 1, 1, 32] [1, 1, 1, 1, 1, 32] = 75"
    by (simp add: spec_avg_def spec_metric_rate_def window_cagr_32 py_round2_75)
  with avg_example_value show ?thesis by simp
qed

section \<open>Properties of calculate\_intrinsic\_value\<close>











section \<open>Properties of get\_valid\_price\<close>

lemma price_search_none:
  assumes "\<forall>k<n. \<not> truthy (get_price_on_date provider ticker (strftime (base - int (i + k))))"
    and "int (i + n) \<le> base"
  shows "price_search strftime provider ticker base i n requested =
           (requested @ map (\<lambda>k. strftime (base - int k)) [i..<i + n], Inr None)"
  using assms
proof (induction n arbitrary: i requested)
  case 0
  show ?case by simp
next
  case (Suc n)
  have here: "\<not> truthy (get_price_on_date provider ticker (strftime (base - int i)))"
    using Suc.prems(1) [rule_format, of 0] by simp
  have rest: "\<forall>k<n. \<not> truthy (get_price_on_date provider ticker (strftime (base - int (Suc i + k))))"
  proof (intro allI impI)
    fix k assume "k < n"
    then have "Suc k < Suc n" by simp
    from Suc.prems(1) [rule_format, OF this] show
      "\<not> truthy (get_price_on_date provider ticker (strftime (base - int (Suc i + k))))" by simp
  qed
  have range: "\<not> base - int i < 1" "int (Suc i + n) \<le> base" using Suc.prems(2) by simp_all
  have "price_search strftime provider ticker base i (Suc n) requested =
          price_search strftime provider ticker base (Suc i) n (requested @ [strftime (base - int i)])"
    using here range by (simp add: Let_def)
  also have "\<dots> = ((requested @ [strftime (base - int i)])
                      @ map (\<lambda>k. strftime (base - int k)) [Suc i..<Suc i + n], Inr None)"
    by (rule Suc.IH [OF rest range(2)])
  also have "(requested @ [strftime (base - int i)]) @ map (\<lambda>k. strftime (base - int k)) [Suc i..<Suc i + n]
             = requested @ map (\<lambda>k. strftime (base - int k)) [i..<i + Suc n]"
  proof -
    have "[i..<i + Suc n] = i # [Suc i..<Suc i + n]" by (simp add: upt_conv_Cons del: upt_Suc)
    then show ?thesis by (simp only: list.map append_assoc append.simps)
  qed
  finally show ?case .
qed

lemma price_search_hit:
  assumes "j < n"
    and "truthy (get_price_on_date provider ticker (strftime (base - int (i + j))))"
    and "\<forall>k<j. \<not> truthy (get_price_on_date provider ticker (strftime (base - int (i + k))))"
    and "int (i + j) < base"
  shows "price_search strftime provider ticker base i n requested =
           (requested @ map (\<lambda>k. strftime (base - int k)) [i..<Suc (i + j)],
            Inr (Some (get_price_on_date provider ticker (strftime (base - int (i + j))),
                       strftime (base - int (i + j)))))"
  using assms
proof (induction n arbitrary: i j requested)
  case 0
  then show ?case by simp
next
  case (Suc n)
  have range: "\<not> base - int i < 1" using Suc.prems(4) by simp
  show ?case
  proof (cases j)
    case 0
    then show ?thesis using Suc.prems(2) range by (simp add: Let_def)
  next
    case (Suc j')
    have here: "\<not> truthy (get_price_on_date provider ticker (strftime (base - int i)))"
      using Suc.prems(3) [rule_format, of 0] Suc by simp
    have rest: "\<forall>k<j'. \<not> truthy (get_price_on_date provider ticker (strftime (base - int (Suc i + k))))"
    proof (intro allI impI)
      fix k assume "k < j'"
      then have "Suc k < j" using Suc by simp
      from Suc.prems(3) [rule_format, OF this] show
        "\<not> truthy (get_price_on_date provider ticker (strftime (base - int (Suc i + k))))" by simp
    qed
    have hit: "truthy (get_price_on_date provider ticker (strftime (base - int (Suc i + j'))))"
      using Suc.prems(2) Suc by simp
    have lt: "j' < n" "int (Suc i + j') < base" using Suc.prems(1,4) Suc by simp_all
    have "price_search strftime provider ticker base i (Suc n) requested =
          price_search strftime provider ticker base (Suc i) n (requested @ [strftime (base - int i)])"
      using here range by (simp add: Let_def)
    also have "\<dots> = ((requested @ [strftime (base - int i)])
                      @ map (\<lambda>k. strftime (base - int k)) [Suc i..<Suc (Suc i + j')],
            Inr (Some (get_price_on_date provider ticker (strftime (base - int (Suc i + j'))),
                       strftime (base - int (Suc i + j')))))"
      by (rule Suc.IH [OF lt(1) hit rest lt(2)])
    also have "(requested @ [strftime (base - int i)]) @ map (\<lambda>k. strftime (base - int k)) [Suc i..<Suc (Suc i + j')]
             = requested @ map (\<lambda>k. strftime (base - int k)) [i..<Suc (i + j)]"
    proof -
      have "[i..<Suc (i + j)] = i # [Suc i..<Suc (Suc i + j')]"
        using Suc by (simp add: upt_conv_Cons del: upt_Suc)
      then show ?thesis by (simp only: list.map append_assoc append.simps)
    qed
    finally show ?thesis using Suc by simp
  qed
qed

lemma december_2020_days:
  "december_2020 737790 = ''2020-12-31''" "december_2020 737789 = ''2020-12-30''"
  "december_2020 737788 = ''2020-12-29''" "december_2020 737787 = ''2020-12-28''"
  "december_2020 737786 = ''2020-12-27''" "december_2020 737785 = ''2020-12-26''"
  "december_2020 737784 = ''2020-12-25''" "december_2020 737783 = ''2020-12-24''"
  "december_2020 737782 = ''2020-12-23''" "december_2020 737781 = ''2020-12-22''"
  "december_2020 737780 = ''2020-12-21''" "december_2020 737779 = ''2020-12-20''"
  "december_2020 737778 = ''2020-12-19''" "december_2020 737777 = ''2020-12-18''"
  by (simp_all add: december_2020_def show_nat.simps)

lemma below_14_cases:
  assumes "k < (14::nat)"
  obtains "k = 0" | "k = 1" | "k = 2" | "k = 3" | "k = 4" | "k = 5" | "k = 6" | "k = 7"
    | "k = 8" | "k = 9" | "k = 10" | "k = 11" | "k = 12" | "k = 13"
proof -
  have "k = 0 \<or> k = 1 \<or> k = 2 \<or> k = 3 \<or> k = 4 \<or> k = 5 \<or> k = 6 \<or> k = 7
        \<or> k = 8 \<or> k = 9 \<or> k = 10 \<or> k = 11 \<or> k = 12 \<or> k = 13"
    using assms by arith
  then show thesis using that by blast
qed

lemma ten_days_no_price: "\<forall>k<10. \<not> truthy (get_price_on_date (provider_of_closes [(''2020-12-21'', PFloat 120)]) ''COF'' (december_2020 (737790 - int k)))"
proof (intro allI impI)
  fix k :: nat
  assume "k < 10"
  then have "k < 14" by simp
  then show "\<not> truthy (get_price_on_date (provider_of_closes [(''2020-12-21'', PFloat 120)]) ''COF'' (december_2020 (737790 - int k)))"
    using \<open>k < 10\<close>
    by (cases rule: below_14_cases)
       (simp_all add: december_2020_days get_price_on_date_def provider_of_closes_def truthy_def)
qed

lemma upt_14: "[0..<14] = [0, 1, 2, 3, 4, 5, 6, 7, 8, 9, 10, 11, 12, 13 :: nat]"
  by code_simp

lemma upt_11: "[0..<Suc 10] = [0, 1, 2, 3, 4, 5, 6, 7, 8, 9, 10 :: nat]"
  by code_simp

lemma no_price_outside:
  "\<forall>k<14. \<not> truthy (get_price_on_date (provider_of_closes []) ''COF''
                      (december_2020 (737790 - int k)))"
proof (intro allI impI)
  fix k :: nat
  assume "k < 14"
  then show "\<not> truthy (get_price_on_date (provider_of_closes []) ''COF''
                      (december_2020 (737790 - int k)))"
    by (cases rule: below_14_cases)
       (simp_all add: december_2020_days get_price_on_date_def provider_of_closes_def truthy_def)
qed

lemma price_ten_days_before:
  "get_price_on_date (provider_of_closes [(''2020-12-21'', PFloat 120)]) ''COF''
     (december_2020 (737790 - int 10)) = PFloat 120"
  by (simp add: december_2020_days get_price_on_date_def provider_of_closes_def)


text \<open>
  Claim C7. For a base date that has its thirteen predecessors, \<open>get_valid_price\<close>
  requests the prices of \<open>base_date\<close>, \<open>base_date - 1\<close>, ... in this order, stops at
  the first of the 14 days that has a price and returns that price with the printed
  day; it requests all 14 days and returns \<open>(None, None)\<close> when none has a price.
\<close>

theorem get_valid_price_first_hit:
  assumes "strptime base_date_str = Some base_date" and "14 \<le> base_date"
  shows "(\<forall>j<14.
            truthy (get_price_on_date provider ticker (strftime (base_date - int j)))
            \<and> (\<forall>k<j. \<not> truthy (get_price_on_date provider ticker (strftime (base_date - int k))))
            \<longrightarrow> get_valid_price strptime strftime provider ticker base_date_str
                 = (map (\<lambda>k. strftime (base_date - int k)) [0..<Suc j],
                    Inr (Some (get_price_on_date provider ticker (strftime (base_date - int j)),
                               strftime (base_date - int j)))))
         \<and> ((\<forall>k<14. \<not> truthy (get_price_on_date provider ticker (strftime (base_date - int k))))
            \<longrightarrow> get_valid_price strptime strftime provider ticker base_date_str
                 = (map (\<lambda>k. strftime (base_date - int k)) [0..<14], Inr None))"
proof (intro conjI allI impI)
  fix j :: nat
  assume j: "j < 14"
    and h: "truthy (get_price_on_date provider ticker (strftime (base_date - int j)))
            \<and> (\<forall>k<j. \<not> truthy (get_price_on_date provider ticker (strftime (base_date - int k))))"
  have r: "int (0 + j) < base_date" using j assms(2) by simp
  have "price_search strftime provider ticker base_date 0 14 [] =
           ([] @ map (\<lambda>k. strftime (base_date - int k)) [0..<Suc (0 + j)],
            Inr (Some (get_price_on_date provider ticker (strftime (base_date - int (0 + j))),
                       strftime (base_date - int (0 + j)))))"
    using h by (intro price_search_hit [OF j _ _ r]) simp_all
  then show "get_valid_price strptime strftime provider ticker base_date_str
                 = (map (\<lambda>k. strftime (base_date - int k)) [0..<Suc j],
                    Inr (Some (get_price_on_date provider ticker (strftime (base_date - int j)),
                               strftime (base_date - int j))))"
    by (simp add: get_valid_price_def assms(1) del: upt_Suc)
next
  assume h: "\<forall>k<14. \<not> truthy (get_price_on_date provider ticker (strftime (base_date - int k)))"
  have r: "int (0 + 14) \<le> base_date" using assms(2) by simp
  have "price_search strftime provider ticker base_date 0 14 [] =
           ([] @ map (\<lambda>k. strftime (base_date - int k)) [0..<0 + 14], Inr None)"
    using h by (intro price_search_none [OF _ r]) simp
  then show "get_valid_price strptime strftime provider ticker base_date_str
                 = (map (\<lambda>k. strftime (base_date - int k)) [0..<14], Inr None)"
    by (simp add: get_valid_price_def assms(1))
qed

text \<open>
  A provider with data only ten days before 2020-12-31 is asked for eleven days and the
  price of 2020-12-21 is returned; a provider without data is asked for fourteen days.
\<close>

theorem get_valid_price_first_hit_witness:
  "get_valid_price parse_december_2020 december_2020
     (provider_of_closes [(''2020-12-21'', PFloat 120)]) ''COF'' ''2020-12-31''
   = ([''2020-12-31'', ''2020-12-30'', ''2020-12-29'', ''2020-12-28'', ''2020-12-27'',
       ''2020-12-26'', ''2020-12-25'', ''2020-12-24'', ''2020-12-23'', ''2020-12-22'',
       ''2020-12-21''],
      Inr (Some (PFloat 120, ''2020-12-21'')))
   \<and> get_valid_price parse_december_2020 december_2020
     (provider_of_closes []) ''COF'' ''2020-12-31''
   = ([''2020-12-31'', ''2020-12-30'', ''2020-12-29'', ''2020-12-28'', ''2020-12-27'',
       ''2020-12-26'', ''2020-12-25'', ''2020-12-24'', ''2020-12-23'', ''2020-12-22'',
       ''2020-12-21'', ''2020-12-20'', ''2020-12-19'', ''2020-12-18''],
      Inr None)"
proof -
  have p: "parse_december_2020 ''2020-12-31'' = Some 737790" by (simp add: parse_december_2020_def)
  have b: "(14::int) \<le> 737790" by simp
  have t: "truthy (PFloat 120)" by (simp add: truthy_def)
  note hit = get_valid_price_first_hit [where strptime = parse_december_2020
      and strftime = december_2020
      and provider = "provider_of_closes [(''2020-12-21'', PFloat 120)]"
      and ticker = "''COF''", OF p b, THEN conjunct1, rule_format, of 10]
  note none = get_valid_price_first_hit [where strptime = parse_december_2020
      and strftime = december_2020
      and provider = "provider_of_closes []"
      and ticker = "''COF''", OF p b, THEN conjunct2, THEN mp, OF no_price_outside]
  have h: "get_valid_price parse_december_2020 december_2020
     (provider_of_closes [(''2020-12-21'', PFloat 120)]) ''COF'' ''2020-12-31''
     = (map (\<lambda>k. december_2020 (737790 - int k)) [0..<Suc 10],
        Inr (Some (get_price_on_date (provider_of_closes [(''2020-12-21'', PFloat 120)]) ''COF''
                     (december_2020 (737790 - int 10)),
                   december_2020 (737790 - int 10))))"
    using ten_days_no_price t price_ten_days_before by (intro hit) simp_all
  show ?thesis
    unfolding h none upt_14 upt_11 price_ten_days_before
    by (simp add: december_2020_days)
qed


lemma price_search_result_truthy:
  "price_search strftime provider ticker base i n requested = (req, Inr (Some (price, d)))
   \<Longrightarrow> truthy price \<and> price = get_price_on_date provider ticker d"
proof (induction n arbitrary: i requested)
  case 0
  then show ?case by simp
next
  case (Suc n)
  then show ?case by (auto simp: Let_def split: if_splits)
qed

lemma get_price_without_falsy:
  "get_price_on_date (without_falsy provider) ticker date =
     (if truthy (get_price_on_date provider ticker date)
      then get_price_on_date provider ticker date else PNone)"
  by (simp add: get_price_on_date_def without_falsy_def)

lemma truthy_without_falsy:
  "truthy (get_price_on_date (without_falsy provider) ticker date)
     = truthy (get_price_on_date provider ticker date)"
  by (simp add: get_price_without_falsy) (simp add: truthy_def)

lemma price_search_without_falsy:
  "price_search strftime (without_falsy provider) ticker base i n requested
     = price_search strftime provider ticker base i n requested"
proof (induction n arbitrary: i requested)
  case 0
  show ?case by simp
next
  case (Suc n)
  show ?case
    by (simp add: Let_def truthy_without_falsy Suc.IH) (simp add: get_price_without_falsy)
qed


lemma zero_then_price:
  "get_valid_price parse_december_2020 december_2020
     (provider_of_closes [(''2020-12-31'', PInt 0), (''2020-12-29'', PFloat 120)]) ''COF''
     ''2020-12-31''
   = ([''2020-12-31'', ''2020-12-30'', ''2020-12-29''], Inr (Some (PFloat 120, ''2020-12-29'')))"
proof -
  let ?p = "provider_of_closes [(''2020-12-31'', PInt 0), (''2020-12-29'', PFloat 120)]"
  have g: "get_price_on_date ?p ''COF'' ''2020-12-31'' = PInt 0"
    "get_price_on_date ?p ''COF'' ''2020-12-30'' = PNone"
    "get_price_on_date ?p ''COF'' ''2020-12-29'' = PFloat 120"
    by (simp_all add: get_price_on_date_def provider_of_closes_def)
  have miss: "\<forall>k<2. \<not> truthy (get_price_on_date ?p ''COF'' (december_2020 (737790 - int (0 + k))))"
  proof (intro allI impI)
    fix k :: nat
    assume "k < 2"
    then have "k = 0 \<or> k = 1" by arith
    then show "\<not> truthy (get_price_on_date ?p ''COF'' (december_2020 (737790 - int (0 + k))))"
      by (auto simp: december_2020_days g truthy_def)
  qed
  have hit: "truthy (get_price_on_date ?p ''COF'' (december_2020 (737790 - int (0 + 2))))"
    by (simp add: december_2020_days g truthy_def)
  have "price_search december_2020 ?p ''COF'' 737790 0 14 [] =
           ([] @ map (\<lambda>k. december_2020 (737790 - int k)) [0..<Suc (0 + 2)],
            Inr (Some (get_price_on_date ?p ''COF'' (december_2020 (737790 - int (0 + 2))),
                       december_2020 (737790 - int (0 + 2)))))"
    by (rule price_search_hit [OF _ hit miss]) simp_all
  moreover have "[] @ map (\<lambda>k. december_2020 (737790 - int k)) [0..<Suc (0 + 2)]
                 = [''2020-12-31'', ''2020-12-30'', ''2020-12-29'']"
  proof -
    have "[0..<Suc (0 + 2)] = [0, 1, 2 :: nat]" by code_simp
    then show ?thesis by (simp add: december_2020_days del: upt_Suc)
  qed
  moreover have "december_2020 (737790 - int (0 + 2)) = ''2020-12-29''"
    by (simp add: december_2020_days)
  ultimately have "price_search december_2020 ?p ''COF'' 737790 0 14 [] =
           ([''2020-12-31'', ''2020-12-30'', ''2020-12-29''],
            Inr (Some (PFloat 120, ''2020-12-29'')))"
    by (simp only: g)
  then show ?thesis
    by (simp add: get_valid_price_def parse_december_2020_def)
qed


text \<open>
  Claim C10. A closing price that is falsy (0, \<open>None\<close>, an empty string) is treated
  as no price: the lookup on a provider is the lookup on the provider that has no data
  for the days with a falsy price, and a returned price is the truthy price of the
  returned day, so never 0.
\<close>

theorem falsy_price_is_absent_price:
  "get_valid_price strptime strftime (without_falsy provider) ticker base_date_str
     = get_valid_price strptime strftime provider ticker base_date_str
   \<and> (\<forall>requested price date.
         get_valid_price strptime strftime provider ticker base_date_str
           = (requested, Inr (Some (price, date)))
         \<longrightarrow> truthy price \<and> price = get_price_on_date provider ticker date
             \<and> price \<noteq> PInt 0 \<and> price \<noteq> PFloat 0 \<and> price \<noteq> PNone)"
proof (intro conjI allI impI)
  show "get_valid_price strptime strftime (without_falsy provider) ticker base_date_str
     = get_valid_price strptime strftime provider ticker base_date_str"
    by (simp add: get_valid_price_def price_search_without_falsy split: option.splits)
next
  fix requested price date
  assume h: "get_valid_price strptime strftime provider ticker base_date_str
           = (requested, Inr (Some (price, date)))"
  then obtain base where
    "price_search strftime provider ticker base 0 14 [] = (requested, Inr (Some (price, date)))"
    by (auto simp: get_valid_price_def split: option.splits)
  from price_search_result_truthy [OF this]
  have t: "truthy price" and p: "price = get_price_on_date provider ticker date" by blast+
  show "truthy price" by (rule t)
  show "price = get_price_on_date provider ticker date" by (rule p)
  show "price \<noteq> PInt 0" "price \<noteq> PFloat 0" "price \<noteq> PNone"
    using t by (auto simp: truthy_def)
qed
text \<open>
  With a stored close of 0 on 2020-12-31 and of 120 on 2020-12-29, the search passes
  over the 31st and the 30th and returns the 29th.
\<close>

theorem falsy_price_is_absent_price_witness:
  "get_valid_price parse_december_2020 december_2020
     (provider_of_closes [(''2020-12-31'', PInt 0), (''2020-12-29'', PFloat 120)]) ''COF''
     ''2020-12-31''
   = ([''2020-12-31'', ''2020-12-30'', ''2020-12-29''], Inr (Some (PFloat 120, ''2020-12-29'')))
   \<and> truthy (PFloat 120)
   \<and> get_price_on_date
       (provider_of_closes [(''2020-12-31'', PInt 0), (''2020-12-29'', PFloat 120)]) ''COF''
       ''2020-12-31'' = PInt 0
   \<and> get_valid_price parse_december_2020 december_2020
       (without_falsy (provider_of_closes [(''2020-12-31'', PInt 0), (''2020-12-29'', PFloat 120)]))
       ''COF'' ''2020-12-31''
     = ([''2020-12-31'', ''2020-12-30'', ''2020-12-29''], Inr (Some (PFloat 120, ''2020-12-29'')))"
proof -
  note inst = falsy_price_is_absent_price [where strptime = parse_december_2020
      and strftime = december_2020
      and provider = "provider_of_closes [(''2020-12-31'', PInt 0), (''2020-12-29'', PFloat 120)]"
      and ticker = "''COF''" and base_date_str = "''2020-12-31''"]
  have a: "truthy (PFloat 120)"
    using inst [THEN conjunct2, rule_format, OF zero_then_price] by simp
  have b: "get_valid_price parse_december_2020 december_2020
       (without_falsy (provider_of_closes [(''2020-12-31'', PInt 0), (''2020-12-29'', PFloat 120)]))
       ''COF'' ''2020-12-31''
     = ([''2020-12-31'', ''2020-12-30'', ''2020-12-29''], Inr (Some (PFloat 120, ''2020-12-29'')))"
    using inst [THEN conjunct1] zero_then_price by simp
  have c: "get_price_on_date
       (provider_of_closes [(''2020-12-31'', PInt 0), (''2020-12-29'', PFloat 120)]) ''COF''
       ''2020-12-31'' = PInt 0"
    by (simp add: get_price_on_date_def provider_of_closes_def)
  from zero_then_price a b c show ?thesis by simp
qed

section \<open>Properties of calculate\_ten\_cap\_price\<close>

lemma number_of_div_million:
  "py_div_million v = (case number_of v of None \<Rightarrow> Inl TypeError | Some x \<Rightarrow> Inr (x / 1000000))"
  by (cases v) (simp_all add: py_div_million_def number_of_def)


lemma not_record_iff: "not_record r \<longleftrightarrow> r = None \<or> r = Some []"
  by (cases r) (simp_all add: not_record_def)

lemma ten_cap_of_records_shares:
  "ten_cap_of_records i c m = Inr (Some price) \<Longrightarrow> positive_shares m i"
  by (auto simp: ten_cap_of_records_def positive_shares_def number_of_div_million Let_def
           split: sum.splits option.splits if_splits prod.splits)

lemma calculate_ten_cap_price_Some:
  assumes "calculate_ten_cap_price fr gi gc gm t y = Some price"
  shows "\<exists>i c m. year_record fr gi t y = Some i \<and> year_record fr gc t y = Some c
            \<and> year_record fr gm t y = Some m \<and> ten_cap_of_records i c m = Inr (Some price)"
  using assms
  by (auto simp: calculate_ten_cap_price_def year_record_def Let_def not_record_iff
           split: option.splits if_splits sum.splits)


lemma str_2020: "py_str fr (PInt 2020) = ''2020''"
  by (simp add: py_str_def show_int_def show_nat.simps)

lemma str_PStr: "py_str fr (PStr s) = s"
  by (simp add: py_str_def)

lemma year_records:
  "year_record fr (serves [income_2020 a b]) ''COF'' (PInt 2020) = Some (income_2020 a b)"
  "year_record fr (serves [cashflow_of_year ''2020'' d]) ''COF'' (PInt 2020) = Some (cashflow_of_year ''2020'' d)"
  "year_record fr (serves [cashflow_of_year ''2019'' d]) ''COF'' (PInt 2020) = None"
  "year_record fr (serves [metrics_2020]) ''COF'' (PInt 2020) = Some metrics_2020"
  by (simp_all add: year_record_def serves_def find_year_def str_2020 income_2020_def
        cashflow_of_year_def metrics_2020_def dict_get_def str_PStr)

lemma shares_examples:
  "\<not> positive_shares metrics_2020 (income_2020 a (PInt 0))"
  "positive_shares metrics_2020 (income_2020 a (PInt 50000000))"
  by (simp_all add: positive_shares_def shares_outstanding_field_def py_or_def truthy_def
        dict_get_def metrics_2020_def income_2020_def number_of_def)





lemma example_fields:
  "number_of (dict_get (income_2020 (PInt 100000000) s) ''incomeBeforeTax'' (PInt 0)) = Some 100000000"
  "number_of (depreciation_field (cashflow_of_year y (PInt 20000000))) = Some 20000000"
  "number_of (dict_get (cashflow_of_year y d) ''accountsReceivables'' (PInt 0)) = Some (- 3000000)"
  "number_of (dict_get (cashflow_of_year y d) ''accountsPayables'' (PInt 0)) = Some (- 2000000)"
  "number_of (dict_get (cashflow_of_year y d) ''capitalExpenditure'' (PInt 0)) = Some (- 10000000)"
  "number_of (shares_outstanding_field metrics_2020 (income_2020 a (PInt 50000000))) = Some 50000000"
  by (simp_all add: income_2020_def cashflow_of_year_def metrics_2020_def dict_get_def
        depreciation_field_def shares_outstanding_field_def py_or_def truthy_def number_of_def)




text \<open>
  Claim C5. \<open>calculate_ten_cap_price\<close> returns \<open>None\<close> whenever one of the three
  collections has no record of the requested year, and whenever the share count, the
  first truthy value among the four fields of the key metrics and the income record, is
  not a number above zero.
\<close>

theorem ten_cap_none_when_incomplete:
  "(year_record fr get_income_statement ticker year = None
      \<or> year_record fr get_cashflow_statement ticker year = None
      \<or> year_record fr get_key_metrics ticker year = None
    \<longrightarrow> calculate_ten_cap_price fr get_income_statement get_cashflow_statement get_key_metrics
          ticker year = None)
   \<and> (\<forall>current_year_data current_metrics.
         year_record fr get_income_statement ticker year = Some current_year_data
         \<and> year_record fr get_key_metrics ticker year = Some current_metrics
         \<and> \<not> positive_shares current_metrics current_year_data
       \<longrightarrow> calculate_ten_cap_price fr get_income_statement get_cashflow_statement get_key_metrics
             ticker year = None)"
proof (intro conjI allI impI)
  assume h: "year_record fr get_income_statement ticker year = None
      \<or> year_record fr get_cashflow_statement ticker year = None
      \<or> year_record fr get_key_metrics ticker year = None"
  show "calculate_ten_cap_price fr get_income_statement get_cashflow_statement get_key_metrics
          ticker year = None"
  proof (rule ccontr)
    assume "calculate_ten_cap_price fr get_income_statement get_cashflow_statement get_key_metrics
          ticker year \<noteq> None"
    then obtain price where "calculate_ten_cap_price fr get_income_statement get_cashflow_statement
          get_key_metrics ticker year = Some price" by auto
    from calculate_ten_cap_price_Some [OF this] h show False by auto
  qed
next
  fix current_year_data current_metrics
  assume h: "year_record fr get_income_statement ticker year = Some current_year_data
         \<and> year_record fr get_key_metrics ticker year = Some current_metrics
         \<and> \<not> positive_shares current_metrics current_year_data"
  show "calculate_ten_cap_price fr get_income_statement get_cashflow_statement get_key_metrics
             ticker year = None"
  proof (rule ccontr)
    assume "calculate_ten_cap_price fr get_income_statement get_cashflow_statement get_key_metrics
          ticker year \<noteq> None"
    then obtain price where "calculate_ten_cap_price fr get_income_statement get_cashflow_statement
          get_key_metrics ticker year = Some price" by auto
    from calculate_ten_cap_price_Some [OF this] obtain i c m where
      "year_record fr get_income_statement ticker year = Some i"
      "year_record fr get_key_metrics ticker year = Some m"
      "ten_cap_of_records i c m = Inr (Some price)" by blast
    with h ten_cap_of_records_shares show False by force
  qed
qed
text \<open>
  A cash-flow collection that only has the year 2019, and records of 2020 with a share
  count of 0.
\<close>

theorem ten_cap_none_when_incomplete_witness:
  "calculate_ten_cap_price integral_float_repr (serves [income_2020 (PInt 100000000) (PInt 50000000)])
     (serves [cashflow_of_year ''2019'' (PInt 20000000)]) (serves [metrics_2020]) ''COF'' (PInt 2020) = None
   \<and> calculate_ten_cap_price integral_float_repr (serves [income_2020 (PInt 100000000) (PInt 0)])
     (serves [cashflow_of_year ''2020'' (PInt 20000000)]) (serves [metrics_2020]) ''COF'' (PInt 2020) = None"
  using ten_cap_none_when_incomplete [where fr = integral_float_repr
      and get_income_statement = "serves [income_2020 (PInt 100000000) (PInt 50000000)]"
      and get_cashflow_statement = "serves [cashflow_of_year ''2019'' (PInt 20000000)]"
      and get_key_metrics = "serves [metrics_2020]" and ticker = "''COF''" and year = "PInt 2020"]
    ten_cap_none_when_incomplete [where fr = integral_float_repr
      and get_income_statement = "serves [income_2020 (PInt 100000000) (PInt 0)]"
      and get_cashflow_statement = "serves [cashflow_of_year ''2020'' (PInt 20000000)]"
      and get_key_metrics = "serves [metrics_2020]" and ticker = "''COF''" and year = "PInt 2020"]
  by (simp add: year_records shares_examples)





text \<open>
  A \<open>null\<close> in the first depreciation field makes the depreciation 0, and the debug
  output that follows divides the \<open>null\<close> by a million: the call returns \<open>None\<close>
  although every number of the formula is defined.
\<close>

lemma null_depreciation_debug_raises:
  "depreciation_debug (cashflow_of_year y PNone) = Inl TypeError"
  by (simp add: cashflow_of_year_def lower_def lower_char_def py_div_million_def)

lemma null_depreciation_gives_none:
  "number_of (depreciation_field (cashflow_of_year ''2020'' PNone)) = Some 0
   \<and> calculate_ten_cap_price integral_float_repr
       (serves [income_2020 (PInt 100000000) (PInt 50000000)])
       (serves [cashflow_of_year ''2020'' PNone]) (serves [metrics_2020]) ''COF'' (PInt 2020)
     = None"
proof -
  have d: "number_of (depreciation_field (cashflow_of_year ''2020'' PNone)) = Some 0"
    by (simp add: cashflow_of_year_def dict_get_def depreciation_field_def py_or_def truthy_def
          number_of_def)
  have r: "ten_cap_of_records (income_2020 (PInt 100000000) (PInt 50000000))
             (cashflow_of_year ''2020'' PNone) metrics_2020 = Inl TypeError"
    unfolding ten_cap_of_records_def
    by (simp add: number_of_div_million example_fields d null_depreciation_debug_raises)
  have "calculate_ten_cap_price integral_float_repr
       (serves [income_2020 (PInt 100000000) (PInt 50000000)])
       (serves [cashflow_of_year ''2020'' PNone]) (serves [metrics_2020]) ''COF'' (PInt 2020)
     = None"
  proof (rule ccontr)
    assume "calculate_ten_cap_price integral_float_repr
       (serves [income_2020 (PInt 100000000) (PInt 50000000)])
       (serves [cashflow_of_year ''2020'' PNone]) (serves [metrics_2020]) ''COF'' (PInt 2020)
     \<noteq> None"
    then obtain price where "calculate_ten_cap_price integral_float_repr
       (serves [income_2020 (PInt 100000000) (PInt 50000000)])
       (serves [cashflow_of_year ''2020'' PNone]) (serves [metrics_2020]) ''COF'' (PInt 2020)
     = Some price" by auto
    from calculate_ten_cap_price_Some [OF this] show False
      by (simp add: year_records r)
  qed
  with d show ?thesis by simp
qed

end
